theory Spec2Isabelle
  imports Main
begin

section \<open>Strings\<close>

text \<open>
  A Python \<^verbatim>\<open>str\<close> is a sequence of Unicode code points, so a string is a list of
  code points (natural numbers below \<^verbatim>\<open>0x110000\<close>). \<open>lit\<close> turns an ASCII literal
  into such a list.
\<close>

type_synonym pystr = "nat list"

definition lit :: "string \<Rightarrow> pystr" where
  "lit cs = map of_char cs"

fun in_ranges :: "nat \<Rightarrow> (nat \<times> nat) list \<Rightarrow> bool" where
  "in_ranges c [] = False"
| "in_ranges c ((lo, hi) # rs) = ((lo \<le> c \<and> c \<le> hi) \<or> in_ranges c rs)"

text \<open>
  The code points whose Numeric_Type is Decimal or Digit (Unicode 14.0.0, the database
  of CPython 3.11): the characters for which \<^verbatim>\<open>str.isdigit\<close> holds.
\<close>

definition digit_ranges :: "(nat \<times> nat) list" where
  "digit_ranges =
   [(48, 57), (178, 179), (185, 185), (1632, 1641), (1776, 1785), (1984, 1993),
    (2406, 2415), (2534, 2543), (2662, 2671), (2790, 2799), (2918, 2927), (3046, 3055),
    (3174, 3183), (3302, 3311), (3430, 3439), (3558, 3567), (3664, 3673), (3792, 3801),
    (3872, 3881), (4160, 4169), (4240, 4249), (4969, 4977), (6112, 6121), (6160, 6169),
    (6470, 6479), (6608, 6618), (6784, 6793), (6800, 6809), (6992, 7001), (7088, 7097),
    (7232, 7241), (7248, 7257), (8304, 8304), (8308, 8313), (8320, 8329), (9312, 9320),
    (9332, 9340), (9352, 9360), (9450, 9450), (9461, 9469), (9471, 9471), (10102, 10110),
    (10112, 10120), (10122, 10130), (42528, 42537), (43216, 43225), (43264, 43273),
    (43472, 43481), (43504, 43513), (43600, 43609), (44016, 44025), (65296, 65305),
    (66720, 66729), (68160, 68163), (68912, 68921), (69216, 69224), (69714, 69722),
    (69734, 69743), (69872, 69881), (69942, 69951), (70096, 70105), (70384, 70393),
    (70736, 70745), (70864, 70873), (71248, 71257), (71360, 71369), (71472, 71481),
    (71904, 71913), (72016, 72025), (72784, 72793), (73040, 73049), (73120, 73129),
    (92768, 92777), (92864, 92873), (93008, 93017), (120782, 120831), (123200, 123209),
    (123632, 123641), (125264, 125273), (127232, 127242), (130032, 130041)]"

text \<open>
  The code points of general category Nd (Numeric_Type Decimal): what \<^verbatim>\<open>\d\<close> matches
  in a \<^verbatim>\<open>str\<close> pattern and what \<^verbatim>\<open>int\<close> reads. Every range is made of runs of
  ten consecutive code points for the digits 0 to 9, starting at the range's lower end.
\<close>

definition decimal_ranges :: "(nat \<times> nat) list" where
  "decimal_ranges =
   [(48, 57), (1632, 1641), (1776, 1785), (1984, 1993), (2406, 2415), (2534, 2543),
    (2662, 2671), (2790, 2799), (2918, 2927), (3046, 3055), (3174, 3183), (3302, 3311),
    (3430, 3439), (3558, 3567), (3664, 3673), (3792, 3801), (3872, 3881), (4160, 4169),
    (4240, 4249), (6112, 6121), (6160, 6169), (6470, 6479), (6608, 6617), (6784, 6793),
    (6800, 6809), (6992, 7001), (7088, 7097), (7232, 7241), (7248, 7257), (42528, 42537),
    (43216, 43225), (43264, 43273), (43472, 43481), (43504, 43513), (43600, 43609),
    (44016, 44025), (65296, 65305), (66720, 66729), (68912, 68921), (69734, 69743),
    (69872, 69881), (69942, 69951), (70096, 70105), (70384, 70393), (70736, 70745),
    (70864, 70873), (71248, 71257), (71360, 71369), (71472, 71481), (71904, 71913),
    (72016, 72025), (72784, 72793), (73040, 73049), (73120, 73129), (92768, 92777),
    (92864, 92873), (93008, 93017), (120782, 120831), (123200, 123209), (123632, 123641),
    (125264, 125273), (130032, 130041)]"

text \<open>The code points for which \<^verbatim>\<open>str.isspace\<close> holds; \<^verbatim>\<open>str.strip()\<close> removes them.\<close>

definition space_ranges :: "(nat \<times> nat) list" where
  "space_ranges =
   [(9, 13), (28, 32), (133, 133), (160, 160), (5760, 5760), (8192, 8202), (8232, 8233),
    (8239, 8239), (8287, 8287), (12288, 12288)]"

definition isdigit_char :: "nat \<Rightarrow> bool" where
  "isdigit_char c = in_ranges c digit_ranges"

definition isdecimal_char :: "nat \<Rightarrow> bool" where
  "isdecimal_char c = in_ranges c decimal_ranges"

definition isspace_char :: "nat \<Rightarrow> bool" where
  "isspace_char c = in_ranges c space_ranges"

definition ascii_digit :: "nat \<Rightarrow> bool" where
  "ascii_digit c = (48 \<le> c \<and> c \<le> 57)"

text \<open>\<^verbatim>\<open>str.isdigit()\<close>: at least one character, and every character is a digit.\<close>

definition isdigit :: "pystr \<Rightarrow> bool" where
  "isdigit s = (s \<noteq> [] \<and> list_all isdigit_char s)"

text \<open>\<^verbatim>\<open>sep.join(xs)\<close>.\<close>

fun join :: "pystr \<Rightarrow> pystr list \<Rightarrow> pystr" where
  "join sep [] = []"
| "join sep [x] = x"
| "join sep (x # y # ys) = x @ sep @ join sep (y # ys)"

section \<open>Exceptions\<close>

datatype exc = ValueError pystr | KeyError pystr | OverflowError pystr

text \<open>
  \<^verbatim>\<open>str(e)\<close>. A \<^verbatim>\<open>KeyError\<close> prints the \<^verbatim>\<open>repr\<close> of its argument; for the messages
  of this program (no quote, no backslash, printable ASCII) that is the message in single
  quotes.
\<close>

fun str_exc :: "exc \<Rightarrow> pystr" where
  "str_exc (ValueError m) = m"
| "str_exc (KeyError m) = [39] @ m @ [39]"
| "str_exc (OverflowError m) = m"

text \<open>\<^verbatim>\<open>isinstance(e, Exception)\<close>: all three classes derive from \<^verbatim>\<open>Exception\<close>.\<close>

fun is_Exception :: "exc \<Rightarrow> bool" where
  "is_Exception (ValueError m) = True"
| "is_Exception (KeyError m) = True"
| "is_Exception (OverflowError m) = True"

section \<open>Field value types\<close>

text \<open>
  \<^verbatim>\<open>Phone(value)\<close>: the object holds nothing but its value, so a constructed phone
  is its string; construction raises \<^verbatim>\<open>ValueError\<close> or returns the value.
\<close>

definition Phone :: "pystr \<Rightarrow> exc + pystr" where
  "Phone v =
     (if \<not> isdigit v \<or> length v \<noteq> 10
      then Inl (ValueError (lit ''Phone number must be 10 digits''))
      else Inr v)"

text \<open>Decimal rendering of a natural number, as \<^verbatim>\<open>str(n)\<close> and \<^verbatim>\<open>%d\<close> give it.\<close>

fun str_nat :: "nat \<Rightarrow> pystr" where
  "str_nat n = (if n < 10 then [48 + n] else str_nat (n div 10) @ [48 + n mod 10])"

declare str_nat.simps [simp del]

definition pad2 :: "nat \<Rightarrow> pystr" where
  "pad2 n = (if n < 10 then 48 # str_nat n else str_nat n)"

subsection \<open>datetime\<close>

text \<open>
  A naive \<^verbatim>\<open>datetime\<close>: the seven fields the class holds. The constructor checks each
  field's range and raises \<^verbatim>\<open>ValueError\<close>.
\<close>

record datetime =
  year :: nat
  month :: nat
  day :: nat
  hour :: nat
  minute :: nat
  second :: nat
  microsecond :: nat

definition is_leap :: "nat \<Rightarrow> bool" where
  "is_leap y = (y mod 4 = 0 \<and> (y mod 100 \<noteq> 0 \<or> y mod 400 = 0))"

definition days_in_month :: "nat \<Rightarrow> nat \<Rightarrow> nat" where
  "days_in_month y m =
     (if m = 2 then (if is_leap y then 29 else 28)
      else if m = 4 \<or> m = 6 \<or> m = 9 \<or> m = 11 then 30 else 31)"

definition datetime_new ::
  "nat \<Rightarrow> nat \<Rightarrow> nat \<Rightarrow> nat \<Rightarrow> nat \<Rightarrow> nat \<Rightarrow> nat \<Rightarrow> exc + datetime" where
  "datetime_new y m d h mi s us =
     (if \<not> (1 \<le> y \<and> y \<le> 9999)
      then Inl (ValueError (lit ''year '' @ str_nat y @ lit '' is out of range''))
      else if \<not> (1 \<le> m \<and> m \<le> 12) then Inl (ValueError (lit ''month must be in 1..12''))
      else if \<not> (1 \<le> d \<and> d \<le> days_in_month y m)
      then Inl (ValueError (lit ''day is out of range for month''))
      else if \<not> h \<le> 23 then Inl (ValueError (lit ''hour must be in 0..23''))
      else if \<not> mi \<le> 59 then Inl (ValueError (lit ''minute must be in 0..59''))
      else if \<not> s \<le> 59 then Inl (ValueError (lit ''second must be in 0..59''))
      else if \<not> us \<le> 999999 then Inl (ValueError (lit ''microsecond must be in 0..999999''))
      else Inr \<lparr>year = y, month = m, day = d, hour = h, minute = mi, second = s,
                 microsecond = us\<rparr>)"

text \<open>\<^verbatim>\<open>dt.replace(year=y)\<close> builds a new datetime from the other fields of \<open>dt\<close>.\<close>

definition datetime_replace_year :: "datetime \<Rightarrow> nat \<Rightarrow> exc + datetime" where
  "datetime_replace_year dt y =
     datetime_new y (month dt) (day dt) (hour dt) (minute dt) (second dt) (microsecond dt)"

text \<open>Comparison of naive datetimes: the fields in order, the first difference decides.\<close>

fun lex_le :: "nat list \<Rightarrow> nat list \<Rightarrow> bool" where
  "lex_le [] ys = True"
| "lex_le (x # xs) [] = False"
| "lex_le (x # xs) (y # ys) = (x < y \<or> (x = y \<and> lex_le xs ys))"

definition dt_fields :: "datetime \<Rightarrow> nat list" where
  "dt_fields dt = [year dt, month dt, day dt, hour dt, minute dt, second dt, microsecond dt]"

definition dt_le :: "datetime \<Rightarrow> datetime \<Rightarrow> bool" where
  "dt_le a b = lex_le (dt_fields a) (dt_fields b)"

text \<open>
  \<^verbatim>\<open>dt + timedelta(days=n)\<close>: the date moves \<open>n\<close> days on, the time of day stays, and
  a date after 31 December 9999 raises \<^verbatim>\<open>OverflowError\<close>.
\<close>

definition next_day :: "datetime \<Rightarrow> datetime" where
  "next_day dt =
     (if day dt < days_in_month (year dt) (month dt) then dt\<lparr>day := day dt + 1\<rparr>
      else if month dt < 12 then dt\<lparr>month := month dt + 1, day := 1\<rparr>
      else dt\<lparr>year := year dt + 1, month := 1, day := 1\<rparr>)"

fun days_later :: "nat \<Rightarrow> datetime \<Rightarrow> datetime" where
  "days_later 0 dt = dt"
| "days_later (Suc n) dt = days_later n (next_day dt)"

definition datetime_add_days :: "datetime \<Rightarrow> nat \<Rightarrow> exc + datetime" where
  "datetime_add_days dt n =
     (let r = days_later n dt
      in if year r > 9999 then Inl (OverflowError (lit ''date value out of range''))
         else Inr r)"

text \<open>
  \<^verbatim>\<open>dt.strftime("%d.%m.%Y")\<close>: day and month on two digits; the year as the C library
  prints it (glibc: no padding of a year below 1000).
\<close>

definition strftime_dmY :: "datetime \<Rightarrow> pystr" where
  "strftime_dmY dt = pad2 (day dt) @ [46] @ pad2 (month dt) @ [46] @ str_nat (year dt)"

subsection \<open>strptime\<close>

text \<open>
  \<^verbatim>\<open>datetime.strptime(value, "%d.%m.%Y")\<close> (CPython 3.11, module \<^verbatim>\<open>_strptime\<close>)
  compiles the format to the regular expression
  \<^verbatim>\<open>(?P<d>3[0-1]|[1-2]\d|0[1-9]|[1-9]| [1-9])\.(?P<m>1[0-2]|0[1-9]|[1-9])\.(?P<Y>\d\d\d\d)\<close>,
  matches it at the start of the text, refuses text left over after the match, converts
  the three groups with \<^verbatim>\<open>int\<close> and builds the datetime. A regular expression is
  modelled by the list of its matches at the start of a text, in the order in which the
  backtracking matcher tries them: each match is the matched text and the rest.
\<close>

type_synonym regex = "pystr \<Rightarrow> (pystr \<times> pystr) list"

definition re_class :: "(nat \<Rightarrow> bool) \<Rightarrow> regex" where
  "re_class P s = (case s of [] \<Rightarrow> [] | c # r \<Rightarrow> if P c then [([c], r)] else [])"

definition re_chr :: "nat \<Rightarrow> regex" where
  "re_chr a = re_class (\<lambda>c. c = a)"

definition re_range :: "nat \<Rightarrow> nat \<Rightarrow> regex" where
  "re_range lo hi = re_class (\<lambda>c. lo \<le> c \<and> c \<le> hi)"

definition re_seq :: "regex \<Rightarrow> regex \<Rightarrow> regex" where
  "re_seq p q s = concat (map (\<lambda>(a, r1). map (\<lambda>(b, r2). (a @ b, r2)) (q r1)) (p s))"

definition re_alt :: "regex \<Rightarrow> regex \<Rightarrow> regex" where
  "re_alt p q s = p s @ q s"

definition re_digit :: regex where
  "re_digit = re_class isdecimal_char"

definition re_d :: regex where
  "re_d =
     re_alt (re_seq (re_chr 51) (re_range 48 49))
    (re_alt (re_seq (re_range 49 50) re_digit)
    (re_alt (re_seq (re_chr 48) (re_range 49 57))
    (re_alt (re_range 49 57)
            (re_seq (re_chr 32) (re_range 49 57)))))"

definition re_m :: regex where
  "re_m =
     re_alt (re_seq (re_chr 49) (re_range 48 50))
    (re_alt (re_seq (re_chr 48) (re_range 49 57))
            (re_range 49 57))"

definition re_Y :: regex where
  "re_Y = re_seq re_digit (re_seq re_digit (re_seq re_digit re_digit))"

text \<open>The whole pattern: the texts of the groups d, m and Y, and the rest of the text.\<close>

definition re_dmY :: "pystr \<Rightarrow> (pystr \<times> pystr \<times> pystr \<times> pystr) list" where
  "re_dmY s =
     concat (map (\<lambda>(d, r1).
     concat (map (\<lambda>(dot1, r2).
     concat (map (\<lambda>(m, r3).
     concat (map (\<lambda>(dot2, r4).
             map (\<lambda>(y, r5). (d, m, y, r5)) (re_Y r4))
       (re_chr 46 r3)))
       (re_m r2)))
       (re_chr 46 r1)))
       (re_d s))"

text \<open>
  \<^verbatim>\<open>int(text)\<close> on the text of a group: the leading space that the group d may hold
  is dropped (\<^verbatim>\<open>int\<close> ignores white space around the number) and the decimal digits,
  of any script, are read.
\<close>

fun decimal_value_in :: "nat \<Rightarrow> (nat \<times> nat) list \<Rightarrow> nat" where
  "decimal_value_in c [] = 0"
| "decimal_value_in c ((lo, hi) # rs) =
     (if lo \<le> c \<and> c \<le> hi then (c - lo) mod 10 else decimal_value_in c rs)"

definition decimal_value :: "nat \<Rightarrow> nat" where
  "decimal_value c = decimal_value_in c decimal_ranges"

definition int_of_group :: "pystr \<Rightarrow> nat" where
  "int_of_group s = foldl (\<lambda>a c. 10 * a + decimal_value c) 0 (dropWhile isspace_char s)"

text \<open>
  The messages of the two matching failures quote the text; \<open>Birthday\<close> replaces the
  message of every \<^verbatim>\<open>ValueError\<close>, so they are abridged here.
\<close>

definition strptime_dmY :: "pystr \<Rightarrow> exc + datetime" where
  "strptime_dmY s =
     (case re_dmY s of
        [] \<Rightarrow> Inl (ValueError (lit ''time data does not match format''))
      | (d, m, y, rest) # others \<Rightarrow>
          if rest \<noteq> [] then Inl (ValueError (lit ''unconverted data remains''))
          else datetime_new (int_of_group y) (int_of_group m) (int_of_group d) 0 0 0 0)"

text \<open>\<^verbatim>\<open>Birthday(value)\<close>: the parsed datetime, or the \<^verbatim>\<open>ValueError\<close> of the class.\<close>

definition Birthday :: "pystr \<Rightarrow> exc + datetime" where
  "Birthday v =
     (case strptime_dmY v of
        Inl (ValueError m) \<Rightarrow> Inl (ValueError (lit ''Invalid date format. Use DD.MM.YYYY''))
      | Inl e \<Rightarrow> Inl e
      | Inr dt \<Rightarrow> Inr dt)"

section \<open>Contact record\<close>

record Record =
  name :: pystr
  phones :: "pystr list"
  birthday :: "datetime option"

text \<open>\<^verbatim>\<open>Record(name)\<close>.\<close>

definition new_Record :: "pystr \<Rightarrow> Record" where
  "new_Record n = \<lparr>name = n, phones = [], birthday = None\<rparr>"

text \<open>
  The methods mutate the record; the model returns the record after the call, or the
  exception. A method that raises has not assigned anything before, so the record is
  then as it was.
\<close>

definition Record_add_birthday :: "Record \<Rightarrow> pystr \<Rightarrow> exc + Record" where
  "Record_add_birthday r b =
     (if birthday r = None
      then (case Birthday b of Inl e \<Rightarrow> Inl e | Inr dt \<Rightarrow> Inr (r\<lparr>birthday := Some dt\<rparr>))
      else Inl (ValueError
             (lit ''Birthday is already set. To change it, use the change_birthday.'')))"

definition add_phone :: "Record \<Rightarrow> pystr \<Rightarrow> exc + Record" where
  "add_phone r p =
     (case Phone p of Inl e \<Rightarrow> Inl e | Inr v \<Rightarrow> Inr (r\<lparr>phones := phones r @ [v]\<rparr>))"

text \<open>
  The loop of \<^verbatim>\<open>change_phone\<close> over \<^verbatim>\<open>enumerate(self.phones)\<close>, on the phones from
  the current index on: the first phone equal to \<^verbatim>\<open>old_phone\<close> is replaced and the
  loop returns; the end of the list raises.
\<close>

fun change_phone_loop :: "pystr list \<Rightarrow> pystr \<Rightarrow> pystr \<Rightarrow> exc + pystr list" where
  "change_phone_loop [] old_phone new_phone = Inl (ValueError (lit ''Old phone not found.''))"
| "change_phone_loop (p # ps) old_phone new_phone =
     (if p = old_phone
      then (case Phone new_phone of Inl e \<Rightarrow> Inl e | Inr v \<Rightarrow> Inr (v # ps))
      else (case change_phone_loop ps old_phone new_phone of
              Inl e \<Rightarrow> Inl e
            | Inr ps' \<Rightarrow> Inr (p # ps')))"

definition change_phone :: "Record \<Rightarrow> pystr \<Rightarrow> pystr \<Rightarrow> exc + Record" where
  "change_phone r old_phone new_phone =
     (case change_phone_loop (phones r) old_phone new_phone of
        Inl e \<Rightarrow> Inl e
      | Inr ps \<Rightarrow> Inr (r\<lparr>phones := ps\<rparr>))"

definition show_phones :: "Record \<Rightarrow> pystr" where
  "show_phones r = join (lit '', '') (phones r)"

section \<open>Address book\<close>

text \<open>
  \<^verbatim>\<open>AddressBook.data\<close> is a dict from names to records: a list of pairs in insertion
  order. Assigning to a key that is present replaces its value in place; a new key goes
  to the end.
\<close>

type_synonym AddressBook = "(pystr \<times> Record) list"

definition dict_get :: "AddressBook \<Rightarrow> pystr \<Rightarrow> Record option" where
  "dict_get book k = map_of book k"

fun dict_set :: "AddressBook \<Rightarrow> pystr \<Rightarrow> Record \<Rightarrow> AddressBook" where
  "dict_set [] k v = [(k, v)]"
| "dict_set ((k', v') # kvs) k v =
     (if k' = k then (k, v) # kvs else (k', v') # dict_set kvs k v)"

definition add_record :: "AddressBook \<Rightarrow> Record \<Rightarrow> AddressBook" where
  "add_record book record = dict_set book (name record) record"

text \<open>
  The loop of \<^verbatim>\<open>get_upcoming_birthdays\<close> over \<^verbatim>\<open>self.data.values()\<close>, with the list
  built so far. \<^verbatim>\<open>replace\<close> is not guarded: its exception leaves the loop and the
  method.
\<close>

fun upcoming_loop ::
  "datetime \<Rightarrow> datetime \<Rightarrow> Record list \<Rightarrow> (pystr \<times> pystr) list \<Rightarrow> exc + (pystr \<times> pystr) list"
where
  "upcoming_loop today one_week_later [] upcoming = Inr upcoming"
| "upcoming_loop today one_week_later (record # rs) upcoming =
     (case birthday record of
        None \<Rightarrow> upcoming_loop today one_week_later rs upcoming
      | Some b \<Rightarrow>
          (case datetime_replace_year b (year today) of
             Inl e \<Rightarrow> Inl e
           | Inr birthday_this_year \<Rightarrow>
               if dt_le today birthday_this_year \<and> dt_le birthday_this_year one_week_later
               then upcoming_loop today one_week_later rs
                      (upcoming @ [(name record, strftime_dmY birthday_this_year)])
               else upcoming_loop today one_week_later rs upcoming))"

text \<open>\<open>today\<close> is the value of \<^verbatim>\<open>datetime.now()\<close>.\<close>

definition get_upcoming_birthdays ::
  "datetime \<Rightarrow> AddressBook \<Rightarrow> exc + (pystr \<times> pystr) list" where
  "get_upcoming_birthdays today book =
     (case datetime_add_days today 7 of
        Inl e \<Rightarrow> Inl e
      | Inr one_week_later \<Rightarrow> upcoming_loop today one_week_later (map snd book) [])"

section \<open>Command layer\<close>

text \<open>
  A handler returns its message or raises, and may have changed the book by then: the
  result is the pair of the outcome and the book after the call. \<open>input_error\<close> turns
  every exception that is an \<^verbatim>\<open>Exception\<close> into its text.
\<close>

type_synonym result = "(exc + pystr) \<times> AddressBook"

definition input_error :: "result \<Rightarrow> result" where
  "input_error res =
     (case res of
        (Inl e, book) \<Rightarrow> if is_Exception e then (Inr (str_exc e), book) else (Inl e, book)
      | (Inr msg, book) \<Rightarrow> (Inr msg, book))"

text \<open>
  The loop \<^verbatim>\<open>for phone in phones: record.add_phone(phone)\<close>: the record after the
  phones appended so far, and the exception that stopped the loop, if any.
\<close>

fun add_phones :: "Record \<Rightarrow> pystr list \<Rightarrow> exc option \<times> Record" where
  "add_phones r [] = (None, r)"
| "add_phones r (p # ps) =
     (case add_phone r p of Inl e \<Rightarrow> (Some e, r) | Inr r' \<Rightarrow> add_phones r' ps)"

text \<open>
  \<^verbatim>\<open>book.data.get(name, Record(name))\<close> is the record object stored under \<open>name\<close>,
  or a fresh one. Appending to a stored record changes the book at once, also when a later
  phone raises; a fresh record reaches the book only through \<^verbatim>\<open>add_record\<close>. (Every
  record object is stored under one key only: the program stores a record nowhere but in
  \<^verbatim>\<open>add_record\<close>, right after creating or fetching it.)
\<close>

definition add_contact_body :: "pystr list \<Rightarrow> AddressBook \<Rightarrow> result" where
  "add_contact_body args book =
     (if length args < 2
      then (Inl (ValueError (lit ''Please enter a name and at least one phone number.'')), book)
      else
        let name = hd args; phones = tl args;
            msg = lit ''Contact '' @ name @ lit '' added/updated with phone(s): ''
                  @ join (lit ''; '') phones @ lit ''.''
        in (case dict_get book name of
              Some stored \<Rightarrow>
                (case add_phones stored phones of
                   (Some e, record) \<Rightarrow> (Inl e, dict_set book name record)
                 | (None, record) \<Rightarrow> (Inr msg, add_record (dict_set book name record) record))
            | None \<Rightarrow>
                (case add_phones (new_Record name) phones of
                   (Some e, record) \<Rightarrow> (Inl e, book)
                 | (None, record) \<Rightarrow> (Inr msg, add_record book record))))"

definition add_contact :: "pystr list \<Rightarrow> AddressBook \<Rightarrow> result" where
  "add_contact args book = input_error (add_contact_body args book)"

definition change_contact_body :: "pystr list \<Rightarrow> AddressBook \<Rightarrow> result" where
  "change_contact_body args book =
     (if length args \<noteq> 3
      then (Inl (ValueError
                  (lit ''Please enter a name, old phone number, and new phone number.'')), book)
      else
        let name = args ! 0; old_phone = args ! 1; new_phone = args ! 2
        in (case dict_get book name of
              None \<Rightarrow> (Inl (KeyError (lit ''Contact not found.'')), book)
            | Some stored \<Rightarrow>
                (case change_phone stored old_phone new_phone of
                   Inl e \<Rightarrow> (Inl e, book)
                 | Inr record \<Rightarrow>
                     (Inr (lit ''Contact '' @ name @ [39] @ lit ''s phone number changed from ''
                           @ old_phone @ lit '' to '' @ new_phone @ lit ''.''),
                      dict_set book name record))))"

definition change_contact :: "pystr list \<Rightarrow> AddressBook \<Rightarrow> result" where
  "change_contact args book = input_error (change_contact_body args book)"

definition show_phone_body :: "pystr list \<Rightarrow> AddressBook \<Rightarrow> result" where
  "show_phone_body args book =
     (if length args \<noteq> 1 then (Inl (ValueError (lit ''Please enter a name.'')), book)
      else
        let name = args ! 0
        in (case dict_get book name of
              None \<Rightarrow> (Inl (KeyError (lit ''Contact not found.'')), book)
            | Some record \<Rightarrow> (Inr (name @ lit '': '' @ show_phones record), book)))"

definition show_phone :: "pystr list \<Rightarrow> AddressBook \<Rightarrow> result" where
  "show_phone args book = input_error (show_phone_body args book)"

definition show_all_body :: "AddressBook \<Rightarrow> result" where
  "show_all_body book =
     (if book = [] then (Inr (lit ''No contacts found.''), book)
      else (Inr (join [10] (map (\<lambda>(name, record). name @ lit '': '' @ show_phones record) book)),
            book))"

definition show_all :: "AddressBook \<Rightarrow> result" where
  "show_all book = input_error (show_all_body book)"

definition add_birthday_body :: "pystr list \<Rightarrow> AddressBook \<Rightarrow> result" where
  "add_birthday_body args book =
     (if length args \<noteq> 2
      then (Inl (ValueError
                  (lit ''Please enter a name and birthday in DD.MM.YYYY format.'')), book)
      else
        let name = args ! 0; birthday = args ! 1
        in (case dict_get book name of
              Some stored \<Rightarrow>
                (case Record_add_birthday stored birthday of
                   Inl e \<Rightarrow> (Inl e, book)
                 | Inr record \<Rightarrow>
                     (Inr (lit ''Birthday for '' @ name @ lit '' added.''),
                      dict_set book name record))
            | None \<Rightarrow> (Inr (lit ''Contact not found.''), book)))"

definition add_birthday :: "pystr list \<Rightarrow> AddressBook \<Rightarrow> result" where
  "add_birthday args book = input_error (add_birthday_body args book)"

definition show_birthday_body :: "pystr list \<Rightarrow> AddressBook \<Rightarrow> result" where
  "show_birthday_body args book =
     (if length args \<noteq> 1 then (Inl (ValueError (lit ''Please enter a name.'')), book)
      else
        let name = args ! 0
        in (case dict_get book name of
              Some record \<Rightarrow>
                (case birthday record of
                   Some b \<Rightarrow>
                     (Inr (name @ [39] @ lit ''s birthday is on '' @ strftime_dmY b), book)
                 | None \<Rightarrow> (Inr (lit ''Birthday not found.''), book))
            | None \<Rightarrow> (Inr (lit ''Birthday not found.''), book)))"

definition show_birthday :: "pystr list \<Rightarrow> AddressBook \<Rightarrow> result" where
  "show_birthday args book = input_error (show_birthday_body args book)"

text \<open>\<^verbatim>\<open>birthdays\<close> does not read its \<^verbatim>\<open>args\<close> (\<^verbatim>\<open>main\<close> passes \<^verbatim>\<open>None\<close>).\<close>

definition birthdays_body :: "datetime \<Rightarrow> AddressBook \<Rightarrow> result" where
  "birthdays_body today book =
     (case get_upcoming_birthdays today book of
        Inl e \<Rightarrow> (Inl e, book)
      | Inr upcoming \<Rightarrow>
          if upcoming \<noteq> []
          then (Inr (lit ''Upcoming birthdays:'' @ [10]
                     @ join [10] (map (\<lambda>(name, date). name @ lit '' on '' @ date) upcoming)),
                book)
          else (Inr (lit ''No upcoming birthdays next week.''), book))"

definition birthdays :: "datetime \<Rightarrow> AddressBook \<Rightarrow> result" where
  "birthdays today book = input_error (birthdays_body today book)"

subsection \<open>Parsing a command line\<close>

text \<open>\<^verbatim>\<open>s.strip()\<close>: white space is removed at both ends.\<close>

definition strip :: "pystr \<Rightarrow> pystr" where
  "strip s = rev (dropWhile isspace_char (rev (dropWhile isspace_char s)))"

text \<open>
  \<^verbatim>\<open>s.split(' ', maxsplit)\<close>: the text is cut at each of the first \<open>maxsplit\<close> spaces;
  two spaces in a row give an empty part, and the last part keeps its spaces.
\<close>

fun up_to_space :: "pystr \<Rightarrow> (pystr \<times> pystr) option" where
  "up_to_space [] = None"
| "up_to_space (c # cs) =
     (if c = 32 then Some ([], cs)
      else (case up_to_space cs of None \<Rightarrow> None | Some (a, b) \<Rightarrow> Some (c # a, b)))"

fun split_space :: "nat \<Rightarrow> pystr \<Rightarrow> pystr list" where
  "split_space 0 s = [s]"
| "split_space (Suc maxsplit) s =
     (case up_to_space s of None \<Rightarrow> [s] | Some (a, b) \<Rightarrow> a # split_space maxsplit b)"

text \<open>
  \<^verbatim>\<open>s.lower()\<close>: on ASCII text the letters A to Z move to a to z. On other text the
  result is given by the case mapping of the Unicode database, which the parameter
  \<open>unicode_lower\<close> stands for.
\<close>

definition ascii_lower :: "nat \<Rightarrow> nat" where
  "ascii_lower c = (if 65 \<le> c \<and> c \<le> 90 then c + 32 else c)"

definition lower :: "(pystr \<Rightarrow> pystr) \<Rightarrow> pystr \<Rightarrow> pystr" where
  "lower unicode_lower s =
     (if list_all (\<lambda>c. c < 128) s then map ascii_lower s else unicode_lower s)"

definition parse_input :: "(pystr \<Rightarrow> pystr) \<Rightarrow> pystr \<Rightarrow> pystr \<times> pystr list" where
  "parse_input unicode_lower user_input =
     (let parts = split_space 2 (strip user_input);
          command = lower unicode_lower (hd parts);
          args = (if length parts > 1 then tl parts else [])
      in (command, args))"

subsection \<open>One turn of the loop of main\<close>

text \<open>
  What one turn of \<^verbatim>\<open>while True\<close> does with the line read: the text it prints (the
  help text and the farewell are not spelled out), or the exception that leaves the loop,
  and the book afterwards.
\<close>

datatype effect = Print pystr | Help | Goodbye | Raised exc

definition printed :: "result \<Rightarrow> effect \<times> AddressBook" where
  "printed res = (case res of (Inl e, book) \<Rightarrow> (Raised e, book)
                  | (Inr msg, book) \<Rightarrow> (Print msg, book))"

definition main_turn ::
  "(pystr \<Rightarrow> pystr) \<Rightarrow> datetime \<Rightarrow> pystr \<Rightarrow> AddressBook \<Rightarrow> effect \<times> AddressBook" where
  "main_turn unicode_lower today user_input book =
     (let (command, args) = parse_input unicode_lower user_input
      in if command = lit ''close'' \<or> command = lit ''exit'' then (Goodbye, book)
         else if command = lit ''hello'' then (Print (lit ''How can I help you?''), book)
         else if command = lit ''add'' then printed (add_contact args book)
         else if command = lit ''change'' then printed (change_contact args book)
         else if command = lit ''phone'' then printed (show_phone args book)
         else if command = lit ''all'' then printed (show_all book)
         else if command = lit ''add-birthday'' then printed (add_birthday args book)
         else if command = lit ''show-birthday'' then printed (show_birthday args book)
         else if command = lit ''birthdays'' then printed (birthdays today book)
         else if command = lit ''help'' then (Help, book)
         else (Print (lit ''Invalid command. Please try again.''), book))"

section \<open>Notions used in the statements\<close>

text \<open>
  The record after a method call: the call's result, or the record as it was when the
  call raised.
\<close>

definition record_after :: "Record \<Rightarrow> exc + Record \<Rightarrow> Record" where
  "record_after r res = (case res of Inl e \<Rightarrow> r | Inr r' \<Rightarrow> r')"

definition already_set :: exc where
  "already_set =
     ValueError (lit ''Birthday is already set. To change it, use the change_birthday.'')"

text \<open>A text that \<open>Phone\<close> accepts: ten characters, each a digit for \<^verbatim>\<open>str.isdigit\<close>.\<close>

definition valid_phone :: "pystr \<Rightarrow> bool" where
  "valid_phone p = (length p = 10 \<and> list_all isdigit_char p)"

text \<open>
  A dict has each key once, and \<^verbatim>\<open>add_record\<close> stores every record under its own
  name.
\<close>

definition wf_book :: "AddressBook \<Rightarrow> bool" where
  "wf_book book = (distinct (map fst book) \<and> list_all (\<lambda>(k, r). name r = k) book)"

definition phones_under :: "AddressBook \<Rightarrow> pystr \<Rightarrow> pystr list" where
  "phones_under book n = (case dict_get book n of None \<Rightarrow> [] | Some r \<Rightarrow> phones r)"

definition records_named :: "AddressBook \<Rightarrow> pystr \<Rightarrow> Record list" where
  "records_named book n = map snd (filter (\<lambda>(k, r). k = n) book)"

definition added_msg :: "pystr \<Rightarrow> pystr list \<Rightarrow> pystr" where
  "added_msg n ps = lit ''Contact '' @ n @ lit '' added/updated with phone(s): ''
                    @ join (lit ''; '') ps @ lit ''.''"

text \<open>The record that a successful \<^verbatim>\<open>add\<close> of the phones \<open>ps\<close> leaves under \<open>n\<close>.\<close>

definition with_phones :: "AddressBook \<Rightarrow> pystr \<Rightarrow> pystr list \<Rightarrow> Record" where
  "with_phones book n ps =
     (case dict_get book n of
        None \<Rightarrow> \<lparr>name = n, phones = ps, birthday = None\<rparr>
      | Some r \<Rightarrow> r\<lparr>phones := phones r @ ps\<rparr>)"

subsection \<open>Dates\<close>

definition midnight :: "nat \<Rightarrow> nat \<Rightarrow> nat \<Rightarrow> datetime" where
  "midnight y m d =
     \<lparr>year = y, month = m, day = d, hour = 0, minute = 0, second = 0, microsecond = 0\<rparr>"

definition valid_date :: "nat \<Rightarrow> nat \<Rightarrow> nat \<Rightarrow> bool" where
  "valid_date y m d =
     (1 \<le> y \<and> y \<le> 9999 \<and> 1 \<le> m \<and> m \<le> 12 \<and> 1 \<le> d \<and> d \<le> days_in_month y m)"

text \<open>
  The texts the three groups of the pattern accept: a day of one or two characters (a
  leading zero or space allowed), a month of one or two characters, a year of four decimal
  digits of any script.
\<close>

definition day_text :: "pystr \<Rightarrow> bool" where
  "day_text d =
     (case d of
        [a] \<Rightarrow> 49 \<le> a \<and> a \<le> 57
      | [a, b] \<Rightarrow> (a = 51 \<and> 48 \<le> b \<and> b \<le> 49) \<or> (49 \<le> a \<and> a \<le> 50 \<and> isdecimal_char b) \<or>
                  ((a = 48 \<or> a = 32) \<and> 49 \<le> b \<and> b \<le> 57)
      | _ \<Rightarrow> False)"

definition month_text :: "pystr \<Rightarrow> bool" where
  "month_text m =
     (case m of
        [a] \<Rightarrow> 49 \<le> a \<and> a \<le> 57
      | [a, b] \<Rightarrow> (a = 49 \<and> 48 \<le> b \<and> b \<le> 50) \<or> (a = 48 \<and> 49 \<le> b \<and> b \<le> 57)
      | _ \<Rightarrow> False)"

definition year_text :: "pystr \<Rightarrow> bool" where
  "year_text y = (length y = 4 \<and> list_all isdecimal_char y)"

text \<open>
  The format DD.MM.YYYY read strictly: two ASCII digits, a dot, two ASCII digits, a dot,
  four ASCII digits; and the date such a text denotes.
\<close>

definition DD_MM_YYYY :: "pystr \<Rightarrow> bool" where
  "DD_MM_YYYY s =
     (case s of
        [d1, d2, p, m1, m2, q, y1, y2, y3, y4] \<Rightarrow>
          list_all ascii_digit [d1, d2, m1, m2, y1, y2, y3, y4] \<and> p = 46 \<and> q = 46
      | _ \<Rightarrow> False)"

definition ascii_number :: "pystr \<Rightarrow> nat" where
  "ascii_number s = foldl (\<lambda>a c. 10 * a + (c - 48)) 0 s"

definition denotes_valid_date :: "pystr \<Rightarrow> bool" where
  "denotes_valid_date s =
     valid_date (ascii_number (drop 6 s)) (ascii_number (take 2 (drop 3 s)))
       (ascii_number (take 2 s))"

subsection \<open>Upcoming birthdays\<close>

text \<open>
  The occurrence of a record's birthday in the year of \<open>today\<close>, where \<^verbatim>\<open>replace\<close>
  gives one; the window test of the loop; the pair the loop appends.
\<close>

definition occurrence :: "datetime \<Rightarrow> Record \<Rightarrow> datetime option" where
  "occurrence today r =
     (case birthday r of
        None \<Rightarrow> None
      | Some b \<Rightarrow> (case datetime_replace_year b (year today) of
                     Inl e \<Rightarrow> None | Inr occ \<Rightarrow> Some occ))"

definition replaceable :: "datetime \<Rightarrow> Record \<Rightarrow> bool" where
  "replaceable today r = (birthday r = None \<or> occurrence today r \<noteq> None)"

definition in_window :: "datetime \<Rightarrow> datetime \<Rightarrow> Record \<Rightarrow> bool" where
  "in_window today one_week_later r =
     (case occurrence today r of
        None \<Rightarrow> False
      | Some occ \<Rightarrow> dt_le today occ \<and> dt_le occ one_week_later)"

definition entry :: "datetime \<Rightarrow> Record \<Rightarrow> pystr \<times> pystr" where
  "entry today r =
     (name r, case occurrence today r of None \<Rightarrow> [] | Some occ \<Rightarrow> strftime_dmY occ)"

subsection \<open>Sample contacts\<close>

definition Alice :: Record where
  "Alice = \<lparr>name = lit ''Alice'', phones = [lit ''1234567890''], birthday = None\<rparr>"

definition Bob :: Record where
  "Bob = \<lparr>name = lit ''Bob'', phones = [], birthday = Some (midnight 2000 6 5)\<rparr>"

definition Eve :: Record where
  "Eve = \<lparr>name = lit ''Eve'', phones = [], birthday = Some (midnight 2000 2 29)\<rparr>"

definition Carol :: Record where
  "Carol = \<lparr>name = lit ''Carol'', phones = [], birthday = Some (midnight 2000 6 15)\<rparr>"

definition Dave :: Record where
  "Dave = \<lparr>name = lit ''Dave'', phones = [], birthday = Some (midnight 2000 5 30)\<rparr>"

definition at_time :: "datetime \<Rightarrow> nat \<Rightarrow> nat \<Rightarrow> datetime" where
  "at_time dt h mi = dt\<lparr>hour := h, minute := mi\<rparr>"

section \<open>Phone numbers\<close>

lemma ascii_digit_isdigit_char: "ascii_digit c \<Longrightarrow> isdigit_char c"
  by (simp add: ascii_digit_def isdigit_char_def digit_ranges_def)

lemma list_all_ascii_digit: "list_all ascii_digit s \<Longrightarrow> list_all isdigit_char s"
  by (induction s) (auto simp: ascii_digit_isdigit_char)

lemma Phone_eq:
  "Phone s = (if length s = 10 \<and> list_all isdigit_char s then Inr s
              else Inl (ValueError (lit ''Phone number must be 10 digits'')))"
  by (auto simp: Phone_def isdigit_def)

lemma Phone_valid: "valid_phone p \<Longrightarrow> Phone p = Inr p"
  by (simp add: Phone_eq valid_phone_def)

lemma Phone_invalid:
  "\<not> valid_phone p \<Longrightarrow> Phone p = Inl (ValueError (lit ''Phone number must be 10 digits''))"
  by (simp add: Phone_eq valid_phone_def)

text \<open>
  Claim C3, as the code has it. \<open>Phone\<close> succeeds exactly on the texts of ten characters
  that are all digits for \<^verbatim>\<open>str.isdigit\<close>, and then holds the text itself; every text
  of ten ASCII digits is among them; every other text raises the format error. The
  digits of \<^verbatim>\<open>str.isdigit\<close> are those of all scripts, not the ASCII ones only.
\<close>

theorem Phone_accepts_iff:
  "((\<exists>p. Phone s = Inr p) \<longleftrightarrow> length s = 10 \<and> list_all isdigit_char s) \<and>
   (length s = 10 \<and> list_all isdigit_char s \<longrightarrow> Phone s = Inr s) \<and>
   (length s = 10 \<and> list_all ascii_digit s \<longrightarrow> Phone s = Inr s) \<and>
   (length s \<noteq> 10 \<or> \<not> list_all isdigit_char s \<longrightarrow>
      Phone s = Inl (ValueError (lit ''Phone number must be 10 digits'')))"
  by (auto simp: Phone_eq list_all_ascii_digit)

theorem Phone_accepts_iff_witness:
  "length (lit ''1234567890'') = 10 \<and> list_all ascii_digit (lit ''1234567890'') \<and>
   Phone (lit ''1234567890'') = Inr (lit ''1234567890'')"
  using Phone_accepts_iff [of "lit ''1234567890''"]
  by (simp add: lit_def ascii_digit_def)

text \<open>
  The ten Arabic-Indic digits (U+0660 to U+0669) make a phone number, and none of them is
  an ASCII digit.
\<close>

theorem Phone_ascii_only_counterexample:
  "Phone [1632, 1633, 1634, 1635, 1636, 1637, 1638, 1639, 1640, 1641]
     = Inr [1632, 1633, 1634, 1635, 1636, 1637, 1638, 1639, 1640, 1641] \<and>
   \<not> list_all ascii_digit [1632, 1633, 1634, 1635, 1636, 1637, 1638, 1639, 1640, 1641]"
  by (simp add: Phone_def isdigit_def isdigit_char_def digit_ranges_def ascii_digit_def)

section \<open>Birthdays\<close>

lemmas regex_defs = re_dmY_def re_d_def re_m_def re_Y_def re_alt_def re_seq_def re_chr_def
  re_range_def re_digit_def re_class_def

lemmas strptime_defs = Birthday_def strptime_dmY_def regex_defs isdecimal_char_def
  decimal_ranges_def int_of_group_def decimal_value_def isspace_char_def space_ranges_def
  datetime_new_def days_in_month_def is_leap_def midnight_def

lemma re_class_iff: "(a, r) \<in> set (re_class P s) \<longleftrightarrow> (\<exists>c. a = [c] \<and> P c \<and> s = c # r)"
  by (auto simp: re_class_def split: list.splits)

lemma re_seq_iff:
  "(a, r) \<in> set (re_seq p q s) \<longleftrightarrow>
   (\<exists>a1 a2 r1. a = a1 @ a2 \<and> (a1, r1) \<in> set (p s) \<and> (a2, r) \<in> set (q r1))"
  by (fastforce simp: re_seq_def)

lemma re_alt_iff: "(a, r) \<in> set (re_alt p q s) \<longleftrightarrow> (a, r) \<in> set (p s) \<or> (a, r) \<in> set (q s)"
  by (simp add: re_alt_def)

lemmas re_iff = re_alt_iff re_seq_iff re_class_iff re_chr_def re_range_def re_digit_def

lemma re_d_iff: "(d, r) \<in> set (re_d s) \<longleftrightarrow> s = d @ r \<and> day_text d"
  unfolding re_d_def re_iff day_text_def
  by (auto split: list.splits)

lemma re_m_iff: "(m, r) \<in> set (re_m s) \<longleftrightarrow> s = m @ r \<and> month_text m"
  unfolding re_m_def re_iff month_text_def
  by (auto split: list.splits)

lemma re_Y_iff: "(y, r) \<in> set (re_Y s) \<longleftrightarrow> s = y @ r \<and> year_text y"
proof
  assume "(y, r) \<in> set (re_Y s)"
  then show "s = y @ r \<and> year_text y"
    unfolding re_Y_def re_iff year_text_def by auto
next
  assume *: "s = y @ r \<and> year_text y"
  then obtain a b c d where "y = [a, b, c, d]"
    by (auto simp: year_text_def length_Suc_conv numeral_eq_Suc)
  with * show "(y, r) \<in> set (re_Y s)"
    unfolding re_Y_def re_iff year_text_def by auto
qed

lemma re_dot_iff: "(a, r) \<in> set (re_chr 46 s) \<longleftrightarrow> a = [46] \<and> s = 46 # r"
  by (auto simp: re_chr_def re_class_iff)

lemma re_dmY_iff:
  "(d, m, y, r) \<in> set (re_dmY s) \<longleftrightarrow>
   s = d @ [46] @ m @ [46] @ y @ r \<and> day_text d \<and> month_text m \<and> year_text y"
proof -
  have "(d, m, y, r) \<in> set (re_dmY s) \<longleftrightarrow>
        (\<exists>r1 r2 r3 r4 a b. (d, r1) \<in> set (re_d s) \<and> (a, r2) \<in> set (re_chr 46 r1) \<and>
           (m, r3) \<in> set (re_m r2) \<and> (b, r4) \<in> set (re_chr 46 r3) \<and> (y, r) \<in> set (re_Y r4))"
    unfolding re_dmY_def by (simp add: image_iff Bex_def) blast
  then show ?thesis
    by (auto simp: re_d_iff re_m_iff re_Y_iff re_dot_iff)
qed

lemma not_decimal_dot: "\<not> isdecimal_char 46"
  by (simp add: isdecimal_char_def decimal_ranges_def)

lemma day_text_no_dot: "day_text d \<Longrightarrow> 46 \<notin> set d"
  using not_decimal_dot by (auto simp: day_text_def split: list.splits)

lemma month_text_no_dot: "month_text m \<Longrightarrow> 46 \<notin> set m"
  by (auto simp: month_text_def split: list.splits)

lemma cut_at_dot_unique:
  "46 \<notin> set a \<Longrightarrow> 46 \<notin> set a' \<Longrightarrow> a @ 46 # x = a' @ 46 # x' \<Longrightarrow> a = a' \<and> x = x'"
proof (induction a arbitrary: a')
  case Nil
  then show ?case by (cases a') auto
next
  case (Cons c a)
  then show ?case by (cases a') auto
qed

text \<open>The pattern matches a text in at most one way, so the first match is the only one.\<close>

lemma re_dmY_unique:
  assumes "(d, m, y, r) \<in> set (re_dmY s)" and "(d', m', y', r') \<in> set (re_dmY s)"
  shows "d = d' \<and> m = m' \<and> y = y' \<and> r = r'"
proof -
  from assms have s: "s = d @ 46 # m @ 46 # y @ r" "s = d' @ 46 # m' @ 46 # y' @ r'"
    and t: "day_text d" "day_text d'" "month_text m" "month_text m'" "year_text y" "year_text y'"
    by (simp_all add: re_dmY_iff)
  from s have "d @ 46 # m @ 46 # y @ r = d' @ 46 # m' @ 46 # y' @ r'" by simp
  with t(1,2) have d: "d = d'" and 1: "m @ 46 # y @ r = m' @ 46 # y' @ r'"
    using cut_at_dot_unique day_text_no_dot by blast+
  with t(3,4) have m: "m = m'" and 2: "y @ r = y' @ r'"
    using cut_at_dot_unique month_text_no_dot by blast+
  from t(5,6) have "length y = length y'" by (simp add: year_text_def)
  with 2 have "y = y' \<and> r = r'" by simp
  with d m show ?thesis by simp
qed

lemma datetime_new_midnight:
  "datetime_new y m d 0 0 0 0 = Inr dt \<longleftrightarrow> valid_date y m d \<and> dt = midnight y m d"
  by (auto simp: datetime_new_def valid_date_def midnight_def)

lemma datetime_new_raises: "datetime_new y m d h mi s us = Inl e \<Longrightarrow> \<exists>msg. e = ValueError msg"
  by (auto simp: datetime_new_def split: if_splits)

lemma strptime_dmY_Inr_iff:
  "strptime_dmY s = Inr dt \<longleftrightarrow>
   (\<exists>d m y. s = d @ [46] @ m @ [46] @ y \<and> day_text d \<and> month_text m \<and> year_text y \<and>
      valid_date (int_of_group y) (int_of_group m) (int_of_group d) \<and>
      dt = midnight (int_of_group y) (int_of_group m) (int_of_group d))"
  (is "?L \<longleftrightarrow> ?R")
proof (cases "re_dmY s")
  case Nil
  then have "\<And>d m y. (d, m, y, []) \<notin> set (re_dmY s)" by simp
  then have "\<not> ?R" by (auto simp: re_dmY_iff)
  with Nil show ?thesis by (simp add: strptime_dmY_def)
next
  case (Cons t ts)
  obtain d m y r where t: "t = (d, m, y, r)" by (cases t)
  with Cons have hd: "(d, m, y, r) \<in> set (re_dmY s)" by simp
  show ?thesis
  proof
    assume ?L
    with Cons t have "r = []"
      and "datetime_new (int_of_group y) (int_of_group m) (int_of_group d) 0 0 0 0 = Inr dt"
      by (auto simp: strptime_dmY_def split: if_splits)
    with hd show ?R by (auto simp: re_dmY_iff datetime_new_midnight)
  next
    assume ?R
    then obtain d' m' y' where
      "(d', m', y', []) \<in> set (re_dmY s)"
      "valid_date (int_of_group y') (int_of_group m') (int_of_group d')"
      "dt = midnight (int_of_group y') (int_of_group m') (int_of_group d')"
      by (auto simp: re_dmY_iff)
    moreover from this(1) hd have "d = d' \<and> m = m' \<and> y = y' \<and> r = []"
      using re_dmY_unique by blast
    ultimately show ?L using Cons t by (simp add: strptime_dmY_def datetime_new_midnight)
  qed
qed

lemma strptime_dmY_raises: "strptime_dmY s = Inl e \<Longrightarrow> \<exists>msg. e = ValueError msg"
  by (auto simp: strptime_dmY_def split: list.splits if_splits dest: datetime_new_raises)

lemma Birthday_Inr_iff: "Birthday s = Inr dt \<longleftrightarrow> strptime_dmY s = Inr dt"
  by (auto simp: Birthday_def split: sum.splits exc.splits)

lemma Birthday_raises:
  "Birthday s = Inl e \<Longrightarrow> e = ValueError (lit ''Invalid date format. Use DD.MM.YYYY'')"
  by (auto simp: Birthday_def split: sum.splits exc.splits dest: strptime_dmY_raises)

lemma ascii_digit_not_space: "ascii_digit c \<Longrightarrow> \<not> isspace_char c"
  by (auto simp: ascii_digit_def isspace_char_def space_ranges_def)

lemma ascii_digit_decimal: "ascii_digit c \<Longrightarrow> isdecimal_char c"
  by (simp add: ascii_digit_def isdecimal_char_def decimal_ranges_def)

lemma ascii_digit_value: "ascii_digit c \<Longrightarrow> decimal_value c = c - 48"
proof -
  assume "ascii_digit c"
  then have "48 \<le> c \<and> c \<le> 57" by (simp add: ascii_digit_def)
  moreover from this have "c - 48 < 10" by arith
  then have "(c - 48) mod 10 = c - 48" by (rule mod_less)
  ultimately show ?thesis by (simp add: decimal_value_def decimal_ranges_def)
qed

lemma int_of_group_ascii:
  "list_all ascii_digit (c # cs) \<Longrightarrow> int_of_group (c # cs) = ascii_number (c # cs)"
proof -
  assume a: "list_all ascii_digit (c # cs)"
  have "foldl (\<lambda>a c. 10 * a + decimal_value c) n xs = foldl (\<lambda>a c. 10 * a + (c - 48)) n xs"
    if "list_all ascii_digit xs" for n xs
    using that by (induction xs arbitrary: n) (simp_all add: ascii_digit_value)
  from this [OF a, of 0] a show ?thesis
    by (simp add: int_of_group_def ascii_number_def ascii_digit_not_space)
qed

lemma days_in_month_le: "days_in_month y m \<le> 31"
  by (simp add: days_in_month_def)

lemma day_text_strict:
  assumes "ascii_digit d1" "ascii_digit d2" "1 \<le> ascii_number [d1, d2]" "ascii_number [d1, d2] \<le> 31"
  shows "day_text [d1, d2]"
proof -
  from assms(2) have "isdecimal_char d2" by (rule ascii_digit_decimal)
  with assms show ?thesis
    by (auto simp: day_text_def ascii_number_def ascii_digit_def)
qed

lemma month_text_strict:
  assumes "ascii_digit m1" "ascii_digit m2" "1 \<le> ascii_number [m1, m2]" "ascii_number [m1, m2] \<le> 12"
  shows "month_text [m1, m2]"
  using assms by (auto simp: month_text_def ascii_number_def ascii_digit_def)

text \<open>Every valid date written strictly as DD.MM.YYYY is accepted.\<close>

lemma strict_accepted:
  assumes "DD_MM_YYYY s" and "denotes_valid_date s"
  shows "Birthday s = Inr (midnight (ascii_number (drop 6 s)) (ascii_number (take 2 (drop 3 s)))
                             (ascii_number (take 2 s)))"
proof -
  from assms(1) obtain d1 d2 m1 m2 y1 y2 y3 y4 where
    s: "s = [d1, d2, 46, m1, m2, 46, y1, y2, y3, y4]" and
    dig: "ascii_digit d1" "ascii_digit d2" "ascii_digit m1" "ascii_digit m2"
         "list_all ascii_digit [y1, y2, y3, y4]"
    by (auto simp: DD_MM_YYYY_def split: list.splits)
  let ?d = "[d1, d2]" and ?m = "[m1, m2]" and ?y = "[y1, y2, y3, y4]"
  from assms(2) s have v: "valid_date (ascii_number ?y) (ascii_number ?m) (ascii_number ?d)"
    by (simp add: denotes_valid_date_def)
  then have "ascii_number ?d \<le> 31"
    using days_in_month_le [of "ascii_number ?y" "ascii_number ?m"] by (simp add: valid_date_def)
  with v dig have dt: "day_text ?d" by (intro day_text_strict) (simp_all add: valid_date_def)
  from v dig have mt: "month_text ?m" by (intro month_text_strict) (simp_all add: valid_date_def)
  from dig have yt: "year_text ?y" by (simp add: year_text_def ascii_digit_decimal)
  from dig have n: "int_of_group ?d = ascii_number ?d" "int_of_group ?m = ascii_number ?m"
      "int_of_group ?y = ascii_number ?y"
    by (simp_all add: int_of_group_ascii)
  have "s = ?d @ [46] @ ?m @ [46] @ ?y" by (simp add: s)
  with dt mt yt v n have "strptime_dmY s =
      Inr (midnight (ascii_number ?y) (ascii_number ?m) (ascii_number ?d))"
    unfolding strptime_dmY_Inr_iff by metis
  then show ?thesis by (simp add: Birthday_Inr_iff s)
qed

lemma Birthday_29_02_2024: "Birthday (lit ''29.02.2024'') = Inr (midnight 2024 2 29)"
  by (simp add: strptime_defs lit_def)

lemma Birthday_29_02_2023:
  "Birthday (lit ''29.02.2023'') = Inl (ValueError (lit ''Invalid date format. Use DD.MM.YYYY''))"
  by (simp add: strptime_defs lit_def)

text \<open>
  Claim C9, as the code has it. \<open>Birthday\<close> succeeds exactly on the texts
  day \<^verbatim>\<open>.\<close> month \<^verbatim>\<open>.\<close> year that the pattern of \<^verbatim>\<open>strptime\<close> accepts (a day and a
  month of one or two characters, a year of four decimal digits) and that give a date of
  the calendar in the years 1 to 9999. Every such date written strictly as DD.MM.YYYY is
  accepted and gives that date; every refused text raises the format error;
  \<^verbatim>\<open>29.02.2024\<close> is accepted and \<^verbatim>\<open>29.02.2023\<close> is refused.
\<close>

theorem Birthday_accepts_iff:
  "((\<exists>dt. Birthday s = Inr dt) \<longleftrightarrow>
      (\<exists>d m y. s = d @ [46] @ m @ [46] @ y \<and> day_text d \<and> month_text m \<and> year_text y \<and>
         valid_date (int_of_group y) (int_of_group m) (int_of_group d))) \<and>
   (DD_MM_YYYY s \<and> denotes_valid_date s \<longrightarrow>
      Birthday s = Inr (midnight (ascii_number (drop 6 s)) (ascii_number (take 2 (drop 3 s)))
                          (ascii_number (take 2 s)))) \<and>
   ((\<forall>dt. Birthday s \<noteq> Inr dt) \<longrightarrow>
      Birthday s = Inl (ValueError (lit ''Invalid date format. Use DD.MM.YYYY''))) \<and>
   Birthday (lit ''29.02.2024'') = Inr (midnight 2024 2 29) \<and>
   Birthday (lit ''29.02.2023'') = Inl (ValueError (lit ''Invalid date format. Use DD.MM.YYYY''))"
proof -
  have iff: "(\<exists>dt. Birthday s = Inr dt) \<longleftrightarrow>
      (\<exists>d m y. s = d @ [46] @ m @ [46] @ y \<and> day_text d \<and> month_text m \<and> year_text y \<and>
         valid_date (int_of_group y) (int_of_group m) (int_of_group d))"
    unfolding Birthday_Inr_iff strptime_dmY_Inr_iff by blast
  have refused: "(\<forall>dt. Birthday s \<noteq> Inr dt) \<longrightarrow>
      Birthday s = Inl (ValueError (lit ''Invalid date format. Use DD.MM.YYYY''))"
  proof (cases "Birthday s")
    case (Inl e)
    then show ?thesis using Birthday_raises [of s e] by simp
  next
    case (Inr dt)
    then show ?thesis by simp
  qed
  from iff refused strict_accepted [of s] Birthday_29_02_2024 Birthday_29_02_2023
  show ?thesis by blast
qed

theorem Birthday_accepts_iff_witness:
  "DD_MM_YYYY (lit ''29.02.2024'') \<and> denotes_valid_date (lit ''29.02.2024'') \<and>
   Birthday (lit ''29.02.2024'') = Inr (midnight 2024 2 29)"
  using Birthday_accepts_iff [of "lit ''29.02.2024''"]
  by (simp add: DD_MM_YYYY_def denotes_valid_date_def ascii_number_def valid_date_def
      days_in_month_def is_leap_def ascii_digit_def lit_def)

text \<open>
  \<^verbatim>\<open>1.2.2024\<close> is accepted and is not of the form DD.MM.YYYY: \<^verbatim>\<open>%d\<close> and \<^verbatim>\<open>%m\<close>
  take one digit as well as two.
\<close>

theorem Birthday_strict_format_counterexample:
  "Birthday (lit ''1.2.2024'') = Inr (midnight 2024 2 1) \<and> \<not> DD_MM_YYYY (lit ''1.2.2024'')"
  by (simp add: strptime_defs DD_MM_YYYY_def lit_def)

section \<open>Methods of the record\<close>

lemma Record_add_birthday_set:
  "birthday r \<noteq> None \<Longrightarrow> Record_add_birthday r t = Inl already_set"
  by (auto simp: Record_add_birthday_def already_set_def)

lemma further_calls_keep:
  "birthday r \<noteq> None \<Longrightarrow>
   foldl (\<lambda>r t. record_after r (Record_add_birthday r t)) r ts = r"
  by (induction ts) (simp_all add: Record_add_birthday_set record_after_def)

text \<open>
  Claim C7. On a record without a birthday, \<open>add_birthday\<close> with a text that \<open>Birthday\<close>
  accepts sets the birthday. On the record so obtained every call raises the
  already-set error, whatever its argument, and leaves the record as it is: after any
  sequence of further calls the record still holds the first birthday.
\<close>

theorem add_birthday_only_once:
  assumes "birthday r = None" and "Birthday s = Inr dt"
  shows "Record_add_birthday r s = Inr (r\<lparr>birthday := Some dt\<rparr>) \<and>
         Record_add_birthday (r\<lparr>birthday := Some dt\<rparr>) t = Inl already_set \<and>
         record_after (r\<lparr>birthday := Some dt\<rparr>)
           (Record_add_birthday (r\<lparr>birthday := Some dt\<rparr>) t) = r\<lparr>birthday := Some dt\<rparr> \<and>
         foldl (\<lambda>r t. record_after r (Record_add_birthday r t)) (r\<lparr>birthday := Some dt\<rparr>) ts
           = r\<lparr>birthday := Some dt\<rparr>"
proof -
  let ?r1 = "r\<lparr>birthday := Some dt\<rparr>"
  have set: "birthday ?r1 \<noteq> None" by simp
  have first: "Record_add_birthday r s = Inr ?r1"
    using assms by (simp add: Record_add_birthday_def)
  have again: "Record_add_birthday ?r1 t = Inl already_set"
    using set by (rule Record_add_birthday_set)
  have kept: "record_after ?r1 (Record_add_birthday ?r1 t) = ?r1"
    by (simp add: again record_after_def)
  have all_kept: "foldl (\<lambda>r t. record_after r (Record_add_birthday r t)) ?r1 ts = ?r1"
    using set by (rule further_calls_keep)
  from first again kept all_kept show ?thesis by blast
qed

theorem add_birthday_only_once_witness:
  "birthday (new_Record (lit ''Alice'')) = None \<and>
   Birthday (lit ''29.02.2024'') = Inr (midnight 2024 2 29) \<and>
   Record_add_birthday (new_Record (lit ''Alice'')) (lit ''29.02.2024'') =
     Inr \<lparr>name = lit ''Alice'', phones = [], birthday = Some (midnight 2024 2 29)\<rparr> \<and>
   Record_add_birthday
     \<lparr>name = lit ''Alice'', phones = [], birthday = Some (midnight 2024 2 29)\<rparr>
     (lit ''01.01.2001'') = Inl already_set"
proof -
  have h1: "birthday (new_Record (lit ''Alice'')) = None" by (simp add: new_Record_def)
  note h2 = Birthday_29_02_2024
  from add_birthday_only_once [OF h1 h2, of "lit ''01.01.2001''" "[]"] h1 h2
  show ?thesis by (simp add: new_Record_def)
qed

lemma change_phone_loop_not_found:
  "old \<notin> set ps \<Longrightarrow>
   change_phone_loop ps old new = Inl (ValueError (lit ''Old phone not found.''))"
  by (induction ps) auto

lemma change_phone_loop_found:
  "old \<notin> set pre \<Longrightarrow>
   change_phone_loop (pre @ old # post) old new =
     (case Phone new of Inl e \<Rightarrow> Inl e | Inr v \<Rightarrow> Inr (pre @ v # post))"
  by (induction pre) (auto split: sum.splits)

text \<open>
  Claim C8. When no phone of the record equals \<open>old\<close>, \<open>change_phone\<close> raises the
  not-found error and the record is as before. When \<open>old\<close> occurs, with \<open>pre\<close> the phones
  before its first occurrence and \<open>post\<close> those after it: a valid \<open>new\<close> takes the place of
  that first occurrence and of nothing else; an invalid \<open>new\<close> raises the error of
  \<open>Phone\<close> and the record is as before.
\<close>

theorem change_phone_first_match:
  "(old \<notin> set (phones r) \<longrightarrow>
      change_phone r old new = Inl (ValueError (lit ''Old phone not found.'')) \<and>
      record_after r (change_phone r old new) = r) \<and>
   (phones r = pre @ old # post \<and> old \<notin> set pre \<and> Phone new = Inr v \<longrightarrow>
      v = new \<and> change_phone r old new = Inr (r\<lparr>phones := pre @ new # post\<rparr>)) \<and>
   (phones r = pre @ old # post \<and> old \<notin> set pre \<and> Phone new = Inl e \<longrightarrow>
      change_phone r old new = Inl e \<and> record_after r (change_phone r old new) = r)"
  by (auto simp: change_phone_def change_phone_loop_not_found change_phone_loop_found
        record_after_def Phone_def split: if_splits)

theorem change_phone_first_match_witness:
  "phones \<lparr>name = lit ''Alice'', phones = [lit ''1111111111''], birthday = None\<rparr>
     = [] @ lit ''1111111111'' # [] \<and>
   lit ''1111111111'' \<notin> set [] \<and>
   Phone (lit ''2222222222'') = Inr (lit ''2222222222'') \<and>
   change_phone \<lparr>name = lit ''Alice'', phones = [lit ''1111111111''], birthday = None\<rparr>
       (lit ''1111111111'') (lit ''2222222222'')
     = Inr \<lparr>name = lit ''Alice'', phones = [lit ''2222222222''], birthday = None\<rparr> \<and>
   lit ''9999999999'' \<notin> set [lit ''1111111111''] \<and>
   change_phone \<lparr>name = lit ''Alice'', phones = [lit ''1111111111''], birthday = None\<rparr>
       (lit ''9999999999'') (lit ''2222222222'')
     = Inl (ValueError (lit ''Old phone not found.'')) \<and>
   change_phone
       \<lparr>name = lit ''Alice'',
        phones = [lit ''1111111111'', lit ''3333333333'', lit ''1111111111''],
        birthday = None\<rparr>
       (lit ''1111111111'') (lit ''2222222222'')
     = Inr \<lparr>name = lit ''Alice'',
            phones = [lit ''2222222222'', lit ''3333333333'', lit ''1111111111''],
            birthday = None\<rparr>"
proof -
  let ?twice = "\<lparr>name = lit ''Alice'',
                 phones = [lit ''1111111111'', lit ''3333333333'', lit ''1111111111''],
                 birthday = None\<rparr>"
  let ?r = "\<lparr>name = lit ''Alice'', phones = [lit ''1111111111''], birthday = None\<rparr>"
  have p: "Phone (lit ''2222222222'') = Inr (lit ''2222222222'')"
    by (simp add: Phone_def isdigit_def isdigit_char_def digit_ranges_def lit_def)
  have n: "lit ''9999999999'' \<notin> set (phones ?r)" by (simp add: lit_def)
  from change_phone_first_match
         [of "lit ''1111111111''" ?r "lit ''2222222222''" "[]" "[]" "lit ''2222222222''"]
       change_phone_first_match [of "lit ''9999999999''" ?r "lit ''2222222222''"]
       change_phone_first_match
         [of "lit ''1111111111''" ?twice "lit ''2222222222''" "[]"
             "[lit ''3333333333'', lit ''1111111111'']" "lit ''2222222222''"] p n
  show ?thesis by simp
qed

section \<open>Adding contacts\<close>

lemma add_phones_valid:
  "list_all valid_phone ps \<Longrightarrow> add_phones r ps = (None, r\<lparr>phones := phones r @ ps\<rparr>)"
  by (induction ps arbitrary: r) (simp_all add: add_phone_def Phone_valid)

lemma add_phones_invalid:
  "\<not> list_all valid_phone ps \<Longrightarrow>
   \<exists>r'. add_phones r ps = (Some (ValueError (lit ''Phone number must be 10 digits'')), r')"
proof (induction ps arbitrary: r)
  case Nil
  then show ?case by simp
next
  case (Cons p ps)
  show ?case
  proof (cases "valid_phone p")
    case True
    with Cons.prems have "\<not> list_all valid_phone ps" by simp
    from Cons.IH [OF this] True show ?thesis by (simp add: add_phone_def Phone_valid)
  next
    case False
    then show ?thesis by (simp add: add_phone_def Phone_invalid)
  qed
qed

lemma dict_get_dict_set:
  "dict_get (dict_set book k v) k' = (if k' = k then Some v else dict_get book k')"
  by (induction book) (auto simp: dict_get_def)

lemma keys_dict_set: "fst ` set (dict_set book k v) = insert k (fst ` set book)"
proof (induction book)
  case Nil
  show ?case by simp
next
  case (Cons kv book)
  then show ?case by (cases kv) (simp add: insert_commute)
qed

lemma dict_set_twice: "dict_set (dict_set book k v) k v' = dict_set book k v'"
  by (induction book) auto

lemma distinct_dict_set:
  "distinct (map fst book) \<Longrightarrow> distinct (map fst (dict_set book k v))"
  by (induction book) (auto simp: keys_dict_set)

lemma names_dict_set:
  "list_all (\<lambda>(k, r). name r = k) book \<Longrightarrow> name v = k \<Longrightarrow>
   list_all (\<lambda>(k, r). name r = k) (dict_set book k v)"
  by (induction book) auto

lemma wf_book_dict_set: "wf_book book \<Longrightarrow> name v = k \<Longrightarrow> wf_book (dict_set book k v)"
  by (simp add: wf_book_def distinct_dict_set names_dict_set)

lemma wf_book_name: "wf_book book \<Longrightarrow> dict_get book k = Some r \<Longrightarrow> name r = k"
  by (auto simp: wf_book_def dict_get_def list_all_iff dest!: map_of_SomeD)

lemma records_named_absent: "k \<notin> fst ` set book \<Longrightarrow> records_named book k = []"
  by (induction book) (auto simp: records_named_def)

lemma records_named_dict_set:
  "distinct (map fst book) \<Longrightarrow> records_named (dict_set book k v) k = [v]"
proof (induction book)
  case Nil
  then show ?case by (simp add: records_named_def)
next
  case (Cons kv book)
  obtain k' v' where kv: "kv = (k', v')" by (cases kv)
  show ?case
  proof (cases "k' = k")
    case True
    with Cons.prems kv have "k \<notin> fst ` set book" by simp
    then have "records_named book k = []" by (rule records_named_absent)
    with True kv show ?thesis by (simp add: records_named_def)
  next
    case False
    with Cons kv show ?thesis by (simp add: records_named_def)
  qed
qed

lemma name_with_phones: "wf_book book \<Longrightarrow> name (with_phones book n ps) = n"
  by (auto simp: with_phones_def wf_book_name split: option.splits)

lemma phones_with_phones: "phones (with_phones book n ps) = phones_under book n @ ps"
  by (simp add: with_phones_def phones_under_def split: option.splits)

text \<open>An add of valid phones: the message, and the one entry of the book it writes.\<close>

lemma add_contact_valid:
  assumes "wf_book book" and "ps \<noteq> []" and "list_all valid_phone ps"
  shows "add_contact (n # ps) book
           = (Inr (added_msg n ps), dict_set book n (with_phones book n ps))"
proof (cases "dict_get book n")
  case None
  with assms show ?thesis
    by (simp add: add_contact_def add_contact_body_def add_phones_valid less_Suc_eq
        input_error_def added_msg_def with_phones_def new_Record_def add_record_def Let_def)
next
  case (Some r)
  with assms(1) have "name r = n" by (rule wf_book_name)
  with Some assms show ?thesis
    by (simp add: add_contact_def add_contact_body_def add_phones_valid less_Suc_eq
        input_error_def added_msg_def with_phones_def add_record_def Let_def dict_set_twice)
qed

text \<open>
  Claim C6. In a book as a dict holds it, two adds under the same name \<open>n\<close>, each with
  at least one phone and valid phones only, both succeed; afterwards exactly one record
  is stored under \<open>n\<close>, it carries the name \<open>n\<close>, and its phones are those it had before
  (none for a new name), then the phones of the first call, then those of the second, in
  order. The other names keep their records.
\<close>

theorem add_contact_twice_one_record:
  assumes wf: "wf_book book"
    and ps1: "ps1 \<noteq> []" "list_all valid_phone ps1"
    and ps2: "ps2 \<noteq> []" "list_all valid_phone ps2"
    and first: "add_contact (n # ps1) book = (m1, book1)"
    and second: "add_contact (n # ps2) book1 = (m2, book2)"
  shows "m1 = Inr (added_msg n ps1) \<and> m2 = Inr (added_msg n ps2) \<and>
         (\<exists>r. records_named book2 n = [r] \<and> dict_get book2 n = Some r \<and> name r = n \<and>
              phones r = phones_under book n @ ps1 @ ps2) \<and>
         (\<forall>k. k \<noteq> n \<longrightarrow> dict_get book2 k = dict_get book k) \<and>
         wf_book book2"
proof -
  let ?r1 = "with_phones book n ps1"
  from add_contact_valid [OF wf ps1] first
  have m1: "m1 = Inr (added_msg n ps1)" and b1: "book1 = dict_set book n ?r1" by simp_all
  have n1: "name ?r1 = n" using wf by (rule name_with_phones)
  have wf1: "wf_book book1" unfolding b1 using wf n1 by (rule wf_book_dict_set)
  let ?r2 = "with_phones book1 n ps2"
  from add_contact_valid [OF wf1 ps2] second
  have m2: "m2 = Inr (added_msg n ps2)" and b2: "book2 = dict_set book1 n ?r2" by simp_all
  have n2: "name ?r2 = n" using wf1 by (rule name_with_phones)
  have wf2: "wf_book book2" unfolding b2 using wf1 n2 by (rule wf_book_dict_set)
  have "phones_under book1 n = phones ?r1"
    by (simp add: b1 phones_under_def dict_get_dict_set)
  then have ph: "phones ?r2 = phones_under book n @ ps1 @ ps2"
    by (simp add: phones_with_phones)
  have named: "records_named book2 n = [?r2]"
    unfolding b2 using wf1 by (simp add: records_named_dict_set wf_book_def)
  have got: "dict_get book2 n = Some ?r2" by (simp add: b2 dict_get_dict_set)
  have others: "\<forall>k. k \<noteq> n \<longrightarrow> dict_get book2 k = dict_get book k"
    by (simp add: b1 b2 dict_get_dict_set)
  from m1 m2 named got n2 ph others wf2 show ?thesis by blast
qed

theorem add_contact_twice_one_record_witness:
  "wf_book [] \<and> list_all valid_phone [lit ''1234567890''] \<and>
   list_all valid_phone [lit ''0987654321''] \<and>
   (\<exists>r. records_named
          (snd (add_contact [lit ''Alice'', lit ''0987654321'']
             (snd (add_contact [lit ''Alice'', lit ''1234567890''] []))))
          (lit ''Alice'') = [r] \<and>
        name r = lit ''Alice'' \<and>
        phones r = [lit ''1234567890'', lit ''0987654321''])"
proof -
  have wf: "wf_book []" by (simp add: wf_book_def)
  have v1: "list_all valid_phone [lit ''1234567890'']"
    and v2: "list_all valid_phone [lit ''0987654321'']"
    by (simp_all add: valid_phone_def isdigit_char_def digit_ranges_def lit_def)
  let ?first = "add_contact [lit ''Alice'', lit ''1234567890''] []"
  let ?second = "add_contact [lit ''Alice'', lit ''0987654321''] (snd ?first)"
  have e1: "?first = (fst ?first, snd ?first)" and e2: "?second = (fst ?second, snd ?second)"
    by simp_all
  have none: "phones_under [] (lit ''Alice'') = []" by (simp add: phones_under_def dict_get_def)
  from add_contact_twice_one_record [OF wf _ v1 _ v2 e1 e2] none
  have "\<exists>r. records_named (snd ?second) (lit ''Alice'') = [r] \<and> name r = lit ''Alice'' \<and>
            phones r = [lit ''1234567890'', lit ''0987654321'']"
    by auto
  with wf v1 v2 show ?thesis by blast
qed

text \<open>
  Claim C10. With at least two arguments, a first argument that is not a name of the
  book, and a phone among the others that \<open>Phone\<close> refuses, \<open>add_contact\<close> returns the
  message of the format error and the book is the one it was given: nothing is stored
  under the new name, also when valid phones come before the refused one.
\<close>

theorem add_contact_invalid_phone_new_name:
  assumes "2 \<le> length args" and "dict_get book (hd args) = None"
    and "\<not> list_all valid_phone (tl args)"
  shows "add_contact args book = (Inr (lit ''Phone number must be 10 digits''), book)"
proof -
  from add_phones_invalid [OF assms(3)] obtain r' where
    "add_phones (new_Record (hd args)) (tl args)
       = (Some (ValueError (lit ''Phone number must be 10 digits'')), r')"
    by blast
  with assms(1,2) show ?thesis
    by (simp add: add_contact_def add_contact_body_def input_error_def Let_def)
qed

theorem add_contact_invalid_phone_new_name_witness:
  "2 \<le> length [lit ''Bob'', lit ''1234567890'', lit ''12''] \<and>
   dict_get [(lit ''Alice'', Alice)] (hd [lit ''Bob'', lit ''1234567890'', lit ''12'']) = None \<and>
   \<not> list_all valid_phone (tl [lit ''Bob'', lit ''1234567890'', lit ''12'']) \<and>
   add_contact [lit ''Bob'', lit ''1234567890'', lit ''12''] [(lit ''Alice'', Alice)]
     = (Inr (lit ''Phone number must be 10 digits''), [(lit ''Alice'', Alice)])"
proof -
  let ?args = "[lit ''Bob'', lit ''1234567890'', lit ''12'']"
  have h1: "2 \<le> length ?args" by simp
  have h2: "dict_get [(lit ''Alice'', Alice)] (hd ?args) = None"
    by (simp add: dict_get_def lit_def)
  have h3: "\<not> list_all valid_phone (tl ?args)" by (simp add: valid_phone_def lit_def)
  from add_contact_invalid_phone_new_name [OF h1 h2 h3] h1 h2 h3 show ?thesis by blast
qed

section \<open>The adapter\<close>

lemma input_error_returns: "\<exists>msg book'. input_error res = (Inr msg, book')"
proof (cases res)
  case (Pair outcome book)
  show ?thesis
  proof (cases outcome)
    case (Inl e)
    with Pair show ?thesis by (cases e) (simp_all add: input_error_def)
  next
    case (Inr msg)
    with Pair show ?thesis by (simp add: input_error_def)
  qed
qed

text \<open>
  Claim C2. Whatever the arguments, the book and the clock, each of the seven wrapped
  handlers returns a message and raises nothing; \<open>show_phone\<close> with a single name that
  the book does not hold returns the text of the \<^verbatim>\<open>KeyError\<close>, which is the not-found
  message in quotes, and leaves the book as it is.
\<close>

theorem handlers_return_messages:
  "(\<exists>msg book'. add_contact args book = (Inr msg, book')) \<and>
   (\<exists>msg book'. change_contact args book = (Inr msg, book')) \<and>
   (\<exists>msg book'. show_phone args book = (Inr msg, book')) \<and>
   (\<exists>msg book'. show_all book = (Inr msg, book')) \<and>
   (\<exists>msg book'. add_birthday args book = (Inr msg, book')) \<and>
   (\<exists>msg book'. show_birthday args book = (Inr msg, book')) \<and>
   (\<exists>msg book'. birthdays today book = (Inr msg, book')) \<and>
   (dict_get book n = None \<longrightarrow>
      show_phone [n] book = (Inr ([39] @ lit ''Contact not found.'' @ [39]), book))"
  unfolding add_contact_def change_contact_def show_phone_def show_all_def add_birthday_def
    show_birthday_def birthdays_def
  by (simp add: input_error_returns) (simp add: show_phone_body_def input_error_def)

theorem handlers_return_messages_witness:
  "dict_get [(lit ''Alice'', Alice)] (lit ''NoSuchName'') = None \<and>
   show_phone [lit ''NoSuchName''] [(lit ''Alice'', Alice)]
     = (Inr ([39] @ lit ''Contact not found.'' @ [39]), [(lit ''Alice'', Alice)])"
proof -
  have h: "dict_get [(lit ''Alice'', Alice)] (lit ''NoSuchName'') = None"
    by (simp add: dict_get_def lit_def)
  from handlers_return_messages [of _ "[(lit ''Alice'', Alice)]" _ "lit ''NoSuchName''"] h
  show ?thesis by blast
qed

section \<open>The change command\<close>

lemma length_split_space: "length (split_space maxsplit s) \<le> Suc maxsplit"
  by (induction maxsplit arbitrary: s) (auto split: option.splits)

text \<open>\<open>parse_input\<close> cuts a line into the command and at most two arguments.\<close>

lemma parse_input_args_le_2: "length (snd (parse_input unicode_lower s)) \<le> 2"
proof -
  have "length (split_space 2 (strip s)) \<le> 3"
    using length_split_space [of 2 "strip s"] by simp
  then show ?thesis by (auto simp: parse_input_def Let_def)
qed

text \<open>
  So \<open>change_contact\<close>, which wants three arguments, answers every parsed line with its
  arity message and changes nothing.
\<close>

lemma change_contact_after_parse_input:
  "change_contact (snd (parse_input unicode_lower s)) book
     = (Inr (lit ''Please enter a name, old phone number, and new phone number.''), book)"
  using parse_input_args_le_2 [of unicode_lower s]
  by (simp add: change_contact_def change_contact_body_def input_error_def)

lemma split_space_numeral:
  "split_space (numeral k) s =
     (case up_to_space s of None \<Rightarrow> [s] | Some (a, b) \<Rightarrow> a # split_space (pred_numeral k) b)"
  by (simp add: numeral_eq_Suc)

lemma split_space_1:
  "split_space 1 s = (case up_to_space s of None \<Rightarrow> [s] | Some (a, b) \<Rightarrow> [a, b])"
  by (simp split: option.splits)

lemmas parse_defs = parse_input_def strip_def isspace_char_def space_ranges_def lower_def
  ascii_lower_def lit_def Let_def split_space_numeral split_space_1

text \<open>
  Claim C1, on the code. The book holds Alice with the phone 1234567890. The line
  \<^verbatim>\<open>change Alice 1234567890 0987654321\<close> is parsed into the command \<^verbatim>\<open>change\<close> and two
  arguments, the name and the text of both phones with the space between them; the turn
  of the loop prints the arity message of \<open>change_contact\<close>, and Alice's phone is not
  changed. Called with the three arguments, \<open>change_contact\<close> does change the phone.
\<close>

theorem change_line_gets_arity_message:
  "parse_input unicode_lower (lit ''change Alice 1234567890 0987654321'')
     = (lit ''change'', [lit ''Alice'', lit ''1234567890 0987654321'']) \<and>
   main_turn unicode_lower today (lit ''change Alice 1234567890 0987654321'')
       [(lit ''Alice'', Alice)]
     = (Print (lit ''Please enter a name, old phone number, and new phone number.''),
        [(lit ''Alice'', Alice)]) \<and>
   change_contact [lit ''Alice'', lit ''1234567890'', lit ''0987654321''] [(lit ''Alice'', Alice)]
     = (Inr (lit ''Contact Alice'' @ [39] @
             lit ''s phone number changed from 1234567890 to 0987654321.''),
        [(lit ''Alice'', Alice\<lparr>phones := [lit ''0987654321'']\<rparr>)])"
proof -
  have parsed: "parse_input unicode_lower (lit ''change Alice 1234567890 0987654321'')
     = (lit ''change'', [lit ''Alice'', lit ''1234567890 0987654321''])"
    by (simp add: parse_defs)
  have turn: "main_turn unicode_lower today (lit ''change Alice 1234567890 0987654321'')
       [(lit ''Alice'', Alice)]
     = (Print (lit ''Please enter a name, old phone number, and new phone number.''),
        [(lit ''Alice'', Alice)])"
    unfolding main_turn_def parsed
    by (simp add: change_contact_def change_contact_body_def input_error_def printed_def)
       (simp add: lit_def)
  have direct: "change_contact [lit ''Alice'', lit ''1234567890'', lit ''0987654321'']
       [(lit ''Alice'', Alice)]
     = (Inr (lit ''Contact Alice'' @ [39] @
             lit ''s phone number changed from 1234567890 to 0987654321.''),
        [(lit ''Alice'', Alice\<lparr>phones := [lit ''0987654321'']\<rparr>)])"
    by (simp add: change_contact_def change_contact_body_def input_error_def change_phone_def
        Phone_def isdigit_def isdigit_char_def digit_ranges_def dict_get_def Alice_def lit_def
        Let_def)
  from parsed turn direct show ?thesis by blast
qed

section \<open>The birthday query\<close>

lemma upcoming_loop_no_birthday:
  "birthday r = None \<Longrightarrow>
   upcoming_loop today owl (r # rs) acc = upcoming_loop today owl rs acc \<and>
   \<not> in_window today owl r \<and> replaceable today r"
  by (simp add: in_window_def occurrence_def replaceable_def)

lemma upcoming_loop_occurrence:
  "birthday r = Some b \<Longrightarrow> datetime_replace_year b (year today) = Inr occ \<Longrightarrow>
   upcoming_loop today owl (r # rs) acc =
     (if dt_le today occ \<and> dt_le occ owl
      then upcoming_loop today owl rs (acc @ [(name r, strftime_dmY occ)])
      else upcoming_loop today owl rs acc) \<and>
   in_window today owl r = (dt_le today occ \<and> dt_le occ owl) \<and>
   entry today r = (name r, strftime_dmY occ) \<and> replaceable today r"
  by (simp add: in_window_def occurrence_def replaceable_def entry_def)

lemma upcoming_loop_no_occurrence:
  "birthday r = Some b \<Longrightarrow> datetime_replace_year b (year today) = Inl e \<Longrightarrow>
   upcoming_loop today owl (r # rs) acc = Inl e \<and> \<not> replaceable today r \<and>
   (\<exists>msg. e = ValueError msg)"
  by (auto simp: occurrence_def replaceable_def datetime_replace_year_def
        dest: datetime_new_raises)

lemma upcoming_loop_replaceable:
  "list_all (replaceable today) rs \<Longrightarrow>
   upcoming_loop today owl rs acc =
     Inr (acc @ map (entry today) (filter (in_window today owl) rs))"
proof (induction rs arbitrary: acc)
  case Nil
  show ?case by simp
next
  case (Cons r rs)
  then have rest: "\<And>acc. upcoming_loop today owl rs acc =
      Inr (acc @ map (entry today) (filter (in_window today owl) rs))"
    by simp
  show ?case
  proof (cases "birthday r")
    case None
    from upcoming_loop_no_birthday [OF this] show ?thesis by (simp add: rest)
  next
    case (Some b)
    show ?thesis
    proof (cases "datetime_replace_year b (year today)")
      case (Inl e)
      from upcoming_loop_no_occurrence [OF Some Inl] Cons.prems show ?thesis by simp
    next
      case (Inr occ)
      from upcoming_loop_occurrence [OF Some Inr] show ?thesis by (simp add: rest)
    qed
  qed
qed

lemma upcoming_loop_raises:
  "\<not> list_all (replaceable today) rs \<Longrightarrow>
   \<exists>msg. upcoming_loop today owl rs acc = Inl (ValueError msg)"
proof (induction rs arbitrary: acc)
  case Nil
  then show ?case by simp
next
  case (Cons r rs)
  show ?case
  proof (cases "birthday r")
    case None
    from upcoming_loop_no_birthday [OF this] Cons show ?thesis by simp
  next
    case (Some b)
    show ?thesis
    proof (cases "datetime_replace_year b (year today)")
      case (Inl e)
      from upcoming_loop_no_occurrence [OF Some Inl] show ?thesis by auto
    next
      case (Inr occ)
      from upcoming_loop_occurrence [OF Some Inr] Cons show ?thesis by simp
    qed
  qed
qed

text \<open>
  When the week after \<open>today\<close> exists and every birthday of the book has an occurrence in
  the year of \<open>today\<close>, the method returns, in the order of the book, the records whose
  occurrence lies between \<open>today\<close> and a week later, both ends included.
\<close>

lemma get_upcoming_birthdays_window:
  assumes "datetime_add_days today 7 = Inr one_week_later"
    and "list_all (replaceable today) (map snd book)"
  shows "get_upcoming_birthdays today book =
           Inr (map (entry today) (filter (in_window today one_week_later) (map snd book)))"
  using assms by (simp add: get_upcoming_birthdays_def upcoming_loop_replaceable)

lemma leap_day_not_replaceable:
  "birthday r = Some b \<Longrightarrow> month b = 2 \<Longrightarrow> day b = 29 \<Longrightarrow> \<not> is_leap (year today) \<Longrightarrow>
   \<not> replaceable today r"
  by (simp add: replaceable_def occurrence_def datetime_replace_year_def datetime_new_def
        days_in_month_def)

text \<open>
  One record born on 29 February makes the method raise in every year that is not a leap
  year, whatever else the book holds.
\<close>

lemma get_upcoming_birthdays_leap_day_raises:
  assumes "datetime_add_days today 7 = Inr one_week_later"
    and "(n, r) \<in> set book" and "birthday r = Some b" and "month b = 2" and "day b = 29"
    and "\<not> is_leap (year today)"
  shows "\<exists>msg. get_upcoming_birthdays today book = Inl (ValueError msg)"
proof -
  from assms(3-6) have "\<not> replaceable today r" by (rule leap_day_not_replaceable)
  with assms(2) have "\<not> list_all (replaceable today) (map snd book)"
    by (force simp: list_all_iff)
  from upcoming_loop_raises [OF this] assms(1) show ?thesis
    by (simp add: get_upcoming_birthdays_def)
qed

lemma days_later_numeral:
  "days_later (numeral k) dt = days_later (pred_numeral k) (next_day dt)"
  by (simp add: numeral_eq_Suc)

lemma days_later_1: "days_later 1 dt = next_day dt"
  by simp

lemmas datetime_eval = get_upcoming_birthdays_def datetime_add_days_def next_day_def
  days_in_month_def is_leap_def datetime_replace_year_def datetime_new_def dt_le_def
  dt_fields_def strftime_dmY_def pad2_def str_nat.simps midnight_def at_time_def lit_def
  days_later_numeral days_later_1

text \<open>
  The examples of the specification, on 1 June 2024: the birthday of 5 June is listed
  with its occurrence in 2024, those of 15 June and of 30 May are not.
\<close>

lemma upcoming_on_2024_06_01:
  "get_upcoming_birthdays (midnight 2024 6 1)
     [(lit ''Bob'', Bob), (lit ''Carol'', Carol), (lit ''Dave'', Dave)]
   = Inr [(lit ''Bob'', lit ''05.06.2024'')]"
  by (simp add: datetime_eval Bob_def Carol_def Dave_def)

text \<open>
  Claim C4, on the code. On 1 June 2023 at 10:30 the book holds Bob, born on 5 June 2000,
  and Eve, born on 29 February 2000 (both dates are birthdays that \<open>Birthday\<close> accepts).
  Bob's occurrence, 5 June 2023, lies between the reference instant and a week later;
  alone in the book he is listed. With Eve in the book the method raises at her record
  and lists nobody.
\<close>

theorem upcoming_lost_to_leap_day:
  "Birthday (lit ''05.06.2000'') = Inr (midnight 2000 6 5) \<and>
   Birthday (lit ''29.02.2000'') = Inr (midnight 2000 2 29) \<and>
   occurrence (at_time (midnight 2023 6 1) 10 30) Bob = Some (midnight 2023 6 5) \<and>
   datetime_add_days (at_time (midnight 2023 6 1) 10 30) 7
     = Inr (at_time (midnight 2023 6 8) 10 30) \<and>
   dt_le (at_time (midnight 2023 6 1) 10 30) (midnight 2023 6 5) \<and>
   dt_le (midnight 2023 6 5) (at_time (midnight 2023 6 8) 10 30) \<and>
   get_upcoming_birthdays (at_time (midnight 2023 6 1) 10 30) [(lit ''Bob'', Bob)]
     = Inr [(lit ''Bob'', lit ''05.06.2023'')] \<and>
   get_upcoming_birthdays (at_time (midnight 2023 6 1) 10 30)
       [(lit ''Bob'', Bob), (lit ''Eve'', Eve)]
     = Inl (ValueError (lit ''day is out of range for month''))"
proof -
  have births: "Birthday (lit ''05.06.2000'') = Inr (midnight 2000 6 5)"
    "Birthday (lit ''29.02.2000'') = Inr (midnight 2000 2 29)"
    by (simp_all add: strptime_defs lit_def)
  have occ: "occurrence (at_time (midnight 2023 6 1) 10 30) Bob = Some (midnight 2023 6 5)"
    by (simp add: occurrence_def Bob_def datetime_eval)
  have week: "datetime_add_days (at_time (midnight 2023 6 1) 10 30) 7
     = Inr (at_time (midnight 2023 6 8) 10 30)"
    by (simp add: datetime_eval)
  have window: "dt_le (at_time (midnight 2023 6 1) 10 30) (midnight 2023 6 5)"
    "dt_le (midnight 2023 6 5) (at_time (midnight 2023 6 8) 10 30)"
    by (simp_all add: datetime_eval)
  have alone: "get_upcoming_birthdays (at_time (midnight 2023 6 1) 10 30) [(lit ''Bob'', Bob)]
     = Inr [(lit ''Bob'', lit ''05.06.2023'')]"
    by (simp add: datetime_eval Bob_def)
  have both: "get_upcoming_birthdays (at_time (midnight 2023 6 1) 10 30)
       [(lit ''Bob'', Bob), (lit ''Eve'', Eve)]
     = Inl (ValueError (lit ''day is out of range for month''))"
    by (simp add: datetime_eval Bob_def Eve_def)
  from births occ week window alone both show ?thesis by blast
qed

text \<open>
  Claim C5, on the code. Eve's birthday is 29 February 2000, a date that \<open>Birthday\<close>
  accepts, and the reference instant is 1 March 2023: the method raises the \<^verbatim>\<open>ValueError\<close> of \<^verbatim>\<open>replace\<close> instead of
  returning a list without her, and the \<open>birthdays\<close> command prints that error's text.
\<close>

theorem leap_day_birthday_raises:
  "Birthday (lit ''29.02.2000'') = Inr (midnight 2000 2 29) \<and>
   birthday Eve = Some (midnight 2000 2 29) \<and>
   datetime_replace_year (midnight 2000 2 29) 2023
     = Inl (ValueError (lit ''day is out of range for month'')) \<and>
   get_upcoming_birthdays (midnight 2023 3 1) [(lit ''Eve'', Eve)]
     = Inl (ValueError (lit ''day is out of range for month'')) \<and>
   birthdays (midnight 2023 3 1) [(lit ''Eve'', Eve)]
     = (Inr (lit ''day is out of range for month''), [(lit ''Eve'', Eve)])"
proof -
  have raised: "get_upcoming_birthdays (midnight 2023 3 1) [(lit ''Eve'', Eve)]
     = Inl (ValueError (lit ''day is out of range for month''))"
    by (simp add: datetime_eval Eve_def)
  then have "birthdays (midnight 2023 3 1) [(lit ''Eve'', Eve)]
     = (Inr (lit ''day is out of range for month''), [(lit ''Eve'', Eve)])"
    by (simp add: birthdays_def birthdays_body_def input_error_def)
  moreover have "birthday Eve = Some (midnight 2000 2 29)" by (simp add: Eve_def)
  moreover have "Birthday (lit ''29.02.2000'') = Inr (midnight 2000 2 29)"
    by (simp add: strptime_defs lit_def)
  moreover have "datetime_replace_year (midnight 2000 2 29) 2023
     = Inl (ValueError (lit ''day is out of range for month''))"
    by (simp add: datetime_eval)
  ultimately show ?thesis using raised by blast
qed

end
